theory Spec2Isabelle
  imports Complex_Main
begin

section \<open>Python exceptions\<close>

text \<open>
  A call either returns a value or raises. \<open>error\<close> lists the exceptions that the
  modelled statements themselves can raise. In a method that calls collaborators whose
  code is not part of the modelled files (the metric set, the simulation-output
  constructor), \<open>Raised e\<close> is an exception of the method's own statements and
  \<open>Propagated x\<close> is an exception \<open>x\<close> coming out of a collaborator.
\<close>

datatype error =
    AssertionError
  | KeyError
  | IndexError
  | TypeError
  | ValueError

datatype 'x raised =
    Raised error
  | Propagated 'x

section \<open>Tensors and arrays\<close>

text \<open>
  A torch tensor or numpy array of floats: its shape and its entries in row-major order.
  Entries are finite floats, modelled as reals (rounding is not modelled). A well-formed
  array has as many entries as its shape says.
\<close>

record tensor =
  shape :: "nat list"
  data :: "real list"

type_synonym ndarray = tensor

definition well_formed :: "tensor \<Rightarrow> bool" where
  "well_formed t = (length (data t) = prod_list (shape t))"

text \<open>
  Indexing a one-dimensional tensor or a list with a Python integer: a negative index
  counts from the end; \<open>None\<close> is the \<open>IndexError\<close> of an index out of range.
\<close>

definition py_index :: "'a list \<Rightarrow> int \<Rightarrow> 'a option" where
  "py_index series k =
     (if 0 \<le> k \<and> k < int (length series) then Some (series ! nat k)
      else if k < 0 \<and> - int (length series) \<le> k
        then Some (series ! nat (int (length series) + k))
      else None)"

section \<open>The numpy operations of the open-loop reward\<close>

text \<open>
  A Python float that a computation on finite values can produce here: a finite value, or
  the \<open>nan\<close> that numpy returns for the mean of an array with no entries.
\<close>

datatype pyfloat = Float real | NaN

definition float_neg :: "pyfloat \<Rightarrow> pyfloat" where
  "float_neg v = (case v of Float r \<Rightarrow> Float (- r) | NaN \<Rightarrow> NaN)"

text \<open>
  Broadcasting of two shapes, aligned at their last dimensions (the lists are reversed
  here): two dimensions are compatible when they are equal or one of them is 1, and a
  missing leading dimension counts as 1. \<open>None\<close> is numpy's \<open>ValueError\<close> for shapes
  that cannot be broadcast together.
\<close>

fun broadcast_rev :: "nat list \<Rightarrow> nat list \<Rightarrow> nat list option" where
  "broadcast_rev [] ys = Some ys"
| "broadcast_rev xs [] = Some xs"
| "broadcast_rev (x # xs) (y # ys) =
     (if x = y \<or> y = 1 then map_option ((#) x) (broadcast_rev xs ys)
      else if x = 1 then map_option ((#) y) (broadcast_rev xs ys)
      else None)"

definition broadcast_shapes :: "nat list \<Rightarrow> nat list \<Rightarrow> nat list option" where
  "broadcast_shapes s1 s2 = map_option rev (broadcast_rev (rev s1) (rev s2))"

text \<open>
  \<open>ndindex s\<close> lists the multi-indices of shape \<open>s\<close> in row-major order. \<open>flat_index s idx\<close>
  is the position, in the row-major entries of an array of shape \<open>s\<close>, of the entry that
  broadcasting reads for the result's multi-index \<open>idx\<close>: leading indices beyond the
  array's rank are dropped and a dimension of size 1 is always read at 0.
\<close>

fun ndindex :: "nat list \<Rightarrow> nat list list" where
  "ndindex [] = [[]]"
| "ndindex (d # ds) = concat (map (\<lambda>i. map ((#) i) (ndindex ds)) [0..<d])"

fun ravel :: "nat list \<Rightarrow> nat list \<Rightarrow> nat \<Rightarrow> nat" where
  "ravel (d # ds) (i # is) acc = ravel ds is (acc * d + (if d = 1 then 0 else i))"
| "ravel ds is acc = acc"

definition flat_index :: "nat list \<Rightarrow> nat list \<Rightarrow> nat" where
  "flat_index s idx = ravel s (drop (length idx - length s) idx) 0"

text \<open>\<open>a - b\<close> on arrays: a new array; \<open>None\<close> is the \<open>ValueError\<close> of incompatible shapes.\<close>

definition np_subtract :: "ndarray \<Rightarrow> ndarray \<Rightarrow> ndarray option" where
  "np_subtract a b =
     (case broadcast_shapes (shape a) (shape b) of
        None \<Rightarrow> None
      | Some s \<Rightarrow>
          Some \<lparr>shape = s,
                data = map (\<lambda>idx. data a ! flat_index (shape a) idx
                                 - data b ! flat_index (shape b) idx) (ndindex s)\<rparr>)"

definition np_square :: "ndarray \<Rightarrow> ndarray" where
  "np_square a = a\<lparr>data := map (\<lambda>x. x * x) (data a)\<rparr>"

text \<open>\<open>a.mean()\<close> over all entries; numpy returns \<open>nan\<close> (with a warning) for no entries.\<close>

definition np_mean :: "ndarray \<Rightarrow> pyfloat" where
  "np_mean a =
     (if data a = [] then NaN else Float (sum_list (data a) / real (length (data a))))"

section \<open>Error functions (evaluation/error\_functions.py)\<close>

text \<open>
  \<open>torch.fmod\<close> is the C library's \<open>fmod\<close>: the remainder of the division truncated
  towards zero, so the result has the sign of the dividend. The divisor is \<open>two_pi\<close> at
  every use here, never zero.
\<close>

definition trunc :: "real \<Rightarrow> int" where
  "trunc r = (if 0 \<le> r then \<lfloor>r\<rfloor> else \<lceil>r\<rceil>)"

definition fmod :: "real \<Rightarrow> real \<Rightarrow> real" where
  "fmod x y = x - y * of_int (trunc (x / y))"

definition two_pi :: real where
  "two_pi = 2.0 * pi"

text \<open>The body of \<open>closest_angle\<close> on one pair of entries.\<close>

definition closest_angle1 :: "real \<Rightarrow> real \<Rightarrow> real" where
  "closest_angle1 angle_a angle_b =
     (let wrapped = fmod (angle_b - angle_a) two_pi
      in fmod (2.0 * wrapped) two_pi - wrapped)"

text \<open>
  \<open>closest_angle\<close> asserts that the two shapes are equal and then works entry by entry.
\<close>

definition closest_angle :: "tensor \<Rightarrow> tensor \<Rightarrow> error + tensor" where
  "closest_angle angle_a angle_b =
     (if shape angle_a \<noteq> shape angle_b then Inl AssertionError
      else Inr \<lparr>shape = shape angle_a,
                data = map2 closest_angle1 (data angle_a) (data angle_b)\<rparr>)"

definition tensor_neg :: "tensor \<Rightarrow> tensor" where
  "tensor_neg t = t\<lparr>data := map uminus (data t)\<rparr>"

definition zeros_like :: "tensor \<Rightarrow> tensor" where
  "zeros_like t = t\<lparr>data := map (\<lambda>_. 0) (data t)\<rparr>"

section \<open>The closed-loop evaluator and the metric set\<close>

text \<open>
  The evaluator keeps, per scene, the time series of every metric (a one-dimensional
  tensor per metric name, modelled as the list of its entries, indexed by step) and the
  results of the validators. \<open>'v\<close> is the type of one validator's result for one scene.
  The metric set owns an evaluator; \<open>get_reward\<close> reads
  \<open>metric_set.evaluator.scene_metric_results\<close>.
\<close>

record 'v evaluator =
  scene_validation_results :: "int \<rightharpoonup> (string \<rightharpoonup> 'v)"
  scene_metric_results :: "int \<rightharpoonup> (string \<rightharpoonup> real list)"

record 'v metric_set =
  evaluator :: "'v evaluator"

section \<open>Rewards (environment/reward.py)\<close>

text \<open>
  \<open>RewardInput\<close>. \<open>'ds\<close> is the simulation dataset, \<open>'u\<close> one \<open>UnrollInputOutput\<close>; the
  two histories are dictionaries keyed by scene, the two ego dictionaries map a name to
  an array.
\<close>

record ('ds, 'u) RewardInput =
  frame_index :: int
  scene_indices :: "int list"
  sim_dataset :: 'ds
  ego_ins_outs :: "int \<rightharpoonup> 'u list"
  agents_ins_outs :: "int \<rightharpoonup> 'u list list"
  ego_output_dict :: "string \<rightharpoonup> ndarray"
  ego_input_dict :: "string \<rightharpoonup> ndarray"

text \<open>
  A call of a method: what it returned or raised, the receiver after the call and the
  argument after the call. Python passes the argument by reference, so a statement that
  wrote to it would show in \<open>input_after\<close>.
\<close>

record ('r, 's, 'i) call =
  returned :: 'r
  self_after :: 's
  input_after :: 'i

subsection \<open>The closed-loop reward\<close>

text \<open>
  The base class \<open>Reward\<close> declares \<open>reward_prefix\<close>; \<open>CLE_Reward\<close> extends it with the
  other fields that \<open>CLE_Reward.__init__\<close> sets. \<open>use_yaw\<close>, \<open>yaw_weight\<close>, \<open>stop_flag\<close> and
  \<open>stop_thresh\<close> are \<open>Optional\<close> in the source, so \<open>None\<close> is a value of theirs.
  \<open>stop_error\<close> is not set by the constructor: it is \<open>None\<close> here until \<open>get_reward\<close>
  first assigns it.
\<close>

record Reward =
  reward_prefix :: string

record 'v CLE_Reward = Reward +
  metric_set :: "'v metric_set"
  use_yaw :: "bool option"
  yaw_weight :: "real option"
  enable_clip :: bool
  rew_clip_thresh :: real
  stop_flag :: "bool option"
  stop_thresh :: "real option"
  stop_error :: "real option"

text \<open>The constructor with the defaults of the source, for a given metric set.\<close>

definition CLE_Reward_init :: "'v metric_set \<Rightarrow> 'v CLE_Reward" where
  "CLE_Reward_init ms =
     \<lparr>reward_prefix = ''CLE'', metric_set = ms,
      use_yaw = Some True, yaw_weight = Some 3.0,
      enable_clip = True, rew_clip_thresh = 15,
      stop_flag = Some False, stop_thresh = Some 20,
      stop_error = None\<rparr>"

text \<open>
  The simulation objects of a reward input: the dataset and the two histories. Python
  hands them to the collaborators by reference.
\<close>

type_synonym ('ds, 'u) simulation = "'ds \<times> (int \<rightharpoonup> 'u list) \<times> (int \<rightharpoonup> 'u list list)"

definition simulation_of :: "('ds, 'u) RewardInput \<Rightarrow> ('ds, 'u) simulation" where
  "simulation_of reward_input =
     (sim_dataset reward_input, ego_ins_outs reward_input, agents_ins_outs reward_input)"

definition with_simulation ::
  "('ds, 'u) RewardInput \<Rightarrow> ('ds, 'u) simulation \<Rightarrow> ('ds, 'u) RewardInput" where
  "with_simulation reward_input sim =
     (case sim of
        (dataset, ego, agents) \<Rightarrow>
          reward_input\<lparr>sim_dataset := dataset, ego_ins_outs := ego, agents_ins_outs := agents\<rparr>)"

text \<open>
  The collaborators of \<open>CLE_Reward\<close> whose code is in \<open>cle_metricset\<close>, taken as
  parameters: the constructor \<open>SimulationOutputCLE\<close>, which builds the per-scene record
  \<open>'so\<close> or raises, and the metric set's \<open>evaluate\<close> and \<open>reset\<close>, which act on the metric
  set (\<open>evaluate\<close> may raise, and the metric set is then as \<open>evaluate\<close> left it). Since
  they hold references to the simulation objects, the constructor through its arguments
  and \<open>evaluate\<close>, the method of an injected object, through the records it is given or
  through references of its own, each also returns the simulation objects as it leaves
  them.
\<close>

record ('ds, 'u, 'so, 'v, 'x) collaborators =
  SimulationOutputCLE ::
    "int \<Rightarrow> 'ds \<Rightarrow> (int \<rightharpoonup> 'u list) \<Rightarrow> (int \<rightharpoonup> 'u list list)
       \<Rightarrow> ('x + 'so) \<times> ('ds, 'u) simulation"
  evaluate ::
    "'v metric_set \<Rightarrow> 'so list \<Rightarrow> ('ds, 'u) simulation
       \<Rightarrow> ('x option \<times> 'v metric_set) \<times> ('ds, 'u) simulation"
  reset :: "'v metric_set \<Rightarrow> 'v metric_set"

definition CLE_reset ::
  "('ds, 'u, 'so, 'v, 'x) collaborators \<Rightarrow> 'v CLE_Reward \<Rightarrow> 'v CLE_Reward" where
  "CLE_reset ext self = self\<lparr>metric_set := reset ext (metric_set self)\<rparr>"

text \<open>
  The loop of \<open>CLE_Reward.get_reward\<close> that appends one \<open>SimulationOutputCLE\<close> per scene index to
  \<open>simulated_outputs\<close>; it stops at the first constructor that raises.
\<close>

fun generate_simulated_outputs ::
  "('ds, 'u, 'so, 'v, 'x) collaborators \<Rightarrow> int list \<Rightarrow> ('ds, 'u) simulation \<Rightarrow> 'so list
     \<Rightarrow> ('x raised + 'so list) \<times> ('ds, 'u) simulation" where
  "generate_simulated_outputs ext [] sim simulated_outputs = (Inr simulated_outputs, sim)"
| "generate_simulated_outputs ext (scene_idx # rest) (dataset, ego, agents) simulated_outputs =
     (case SimulationOutputCLE ext scene_idx dataset ego agents of
        (Inl x, sim) \<Rightarrow> (Inl (Propagated x), sim)
      | (Inr so, sim) \<Rightarrow>
          generate_simulated_outputs ext rest sim (simulated_outputs @ [so]))"

text \<open>
  The three statements under \<open># get CLE metrics\<close>: the scene's metrics, the displacement
  error at \<open>frame_index + 1\<close>, and the weighted absolute yaw error at \<open>frame_index + 1\<close>.
  \<open>step\<close> is the caller's \<open>frame_index\<close>.
  Each subscript can raise; the product raises \<open>TypeError\<close> when \<open>yaw_weight\<close> is \<open>None\<close>.
  The yaw error is read whatever \<open>use_yaw\<close> is.
\<close>

definition get_cle_metrics ::
  "'v CLE_Reward \<Rightarrow> int \<Rightarrow> int \<Rightarrow> error + real \<times> real" where
  "get_cle_metrics self scene_idx step =
     (case scene_metric_results (evaluator (metric_set self)) scene_idx of
        None \<Rightarrow> Inl KeyError
      | Some scene_metrics \<Rightarrow>
     (case scene_metrics ''displacement_error_l2'' of
        None \<Rightarrow> Inl KeyError
      | Some displacement_series \<Rightarrow>
     (case py_index displacement_series (step + 1) of
        None \<Rightarrow> Inl IndexError
      | Some dist_error \<Rightarrow>
     (case scene_metrics ''yaw_error_ca'' of
        None \<Rightarrow> Inl KeyError
      | Some yaw_series \<Rightarrow>
     (case py_index yaw_series (step + 1) of
        None \<Rightarrow> Inl IndexError
      | Some yaw \<Rightarrow>
     (case yaw_weight self of
        None \<Rightarrow> Inl TypeError
      | Some w \<Rightarrow> Inr (dist_error, w * \<bar>yaw\<bar>)))))))"

text \<open>
  The statements from \<open># clip reward\<close> to the \<open>return\<close>: the reward from the two values
  read, and the assignment to \<open>self.stop_error\<close>. \<open>if self.use_yaw\<close> takes \<open>None\<close> as false.
\<close>

definition clip_reward :: "'v CLE_Reward \<Rightarrow> real \<Rightarrow> real" where
  "clip_reward self dist_error =
     (if enable_clip self then max (- rew_clip_thresh self) (- dist_error) else - dist_error)"

definition combine_reward :: "'v CLE_Reward \<Rightarrow> real \<Rightarrow> real \<Rightarrow> real" where
  "combine_reward self dist_error yaw_error =
     (let reward = clip_reward self dist_error
      in if use_yaw self = Some True then reward - yaw_error else reward)"

definition CLE_get_reward ::
  "('ds, 'u, 'so, 'v, 'x) collaborators \<Rightarrow> 'v CLE_Reward \<Rightarrow> ('ds, 'u) RewardInput
     \<Rightarrow> ('x raised + real, 'v CLE_Reward, ('ds, 'u) RewardInput) call" where
  "CLE_get_reward ext self reward_input =
     (if length (scene_indices reward_input) \<noteq> 1
      then \<lparr>returned = Inl (Raised AssertionError), self_after = self,
            input_after = reward_input\<rparr>
      else
       (case generate_simulated_outputs ext (scene_indices reward_input)
               (simulation_of reward_input) [] of
          (Inl e, sim) \<Rightarrow>
            \<lparr>returned = Inl e, self_after = self,
             input_after = with_simulation reward_input sim\<rparr>
        | (Inr simulated_outputs, sim) \<Rightarrow>
       (case evaluate ext (metric_set self) simulated_outputs sim of
          ((Some x, ms), sim') \<Rightarrow>
            \<lparr>returned = Inl (Propagated x), self_after = self\<lparr>metric_set := ms\<rparr>,
             input_after = with_simulation reward_input sim'\<rparr>
        | ((None, ms), sim') \<Rightarrow>
       (let self1 = self\<lparr>metric_set := ms\<rparr>;
            input1 = with_simulation reward_input sim';
            scene_idx = last (scene_indices reward_input)
        in case get_cle_metrics self1 scene_idx (frame_index reward_input) of
             Inl e \<Rightarrow>
               \<lparr>returned = Inl (Raised e), self_after = self1, input_after = input1\<rparr>
           | Inr (dist_error, yaw_error) \<Rightarrow>
               \<lparr>returned = Inr (combine_reward self1 dist_error yaw_error),
                self_after = self1\<lparr>stop_error := Some dist_error\<rparr>,
                input_after = input1\<rparr>))))"

text \<open>
  \<open>CLE_get_reward\<close> is \<open>CLE_Reward.get_reward\<close>: the assertion, the loop, the metric set's
  \<open>evaluate\<close> (which changes the metric set, also when a later statement raises), the three
  reads, the reward and the assignment to \<open>stop_error\<close>. \<open>scene_idx\<close> is the loop variable
  after the loop, the last scene index. None of its own statements writes to the reward
  input: \<open>input_after\<close> differs from the input only by what the collaborators did to the
  simulation objects.
\<close>

subsection \<open>The open-loop reward\<close>

text \<open>
  \<open>OLE_Reward\<close> has no field beyond \<open>reward_prefix\<close>, whose default is \<open>"CLE"\<close> in the
  source; its \<open>reset\<close> does nothing.
\<close>

definition OLE_Reward_init :: Reward where
  "OLE_Reward_init = \<lparr>reward_prefix = ''CLE''\<rparr>"

definition OLE_reset :: "Reward \<Rightarrow> Reward" where
  "OLE_reset self = self"

text \<open>
  \<open>OLE_Reward.get_reward\<close>: the two dictionary reads (\<open>KeyError\<close> for a missing key), the
  difference (\<open>ValueError\<close> for shapes that do not broadcast), its square, the mean and
  the negation. Every numpy operation returns a new array.
\<close>

definition OLE_get_reward ::
  "Reward \<Rightarrow> ('ds, 'u) RewardInput
     \<Rightarrow> (error + pyfloat, Reward, ('ds, 'u) RewardInput) call" where
  "OLE_get_reward self reward_input =
     (case ego_output_dict reward_input ''positions'' of
        None \<Rightarrow> \<lparr>returned = Inl KeyError, self_after = self, input_after = reward_input\<rparr>
      | Some positions \<Rightarrow>
     (case ego_input_dict reward_input ''target_positions'' of
        None \<Rightarrow> \<lparr>returned = Inl KeyError, self_after = self, input_after = reward_input\<rparr>
      | Some target_positions \<Rightarrow>
     (case np_subtract positions target_positions of
        None \<Rightarrow> \<lparr>returned = Inl ValueError, self_after = self, input_after = reward_input\<rparr>
      | Some difference \<Rightarrow>
          (let penalty = np_mean (np_square difference);
               reward = float_neg penalty
           in \<lparr>returned = Inr reward, self_after = self, input_after = reward_input\<rparr>))))"

section \<open>Closed-loop evaluation utilities (environment/cle\_utils.py)\<close>

text \<open>
  Modelled from the spec: \<open>ClosedLoopEvaluator.validation_results\<close> and
  \<open>ClosedLoopEvaluator.reset\<close>, whose code (\<open>l5kit.cle.closed_loop_evaluator\<close>) is not among
  the files modelled here. The spec says that the aggregation "reads the evaluator's
  accumulated validation results" and "resets the evaluator's internal accumulation
  state", after which "the evaluator's validation-results store is empty".
\<close>

definition validation_results :: "'v evaluator \<Rightarrow> (int \<rightharpoonup> (string \<rightharpoonup> 'v))" where
  "validation_results ev = scene_validation_results ev"

definition evaluator_reset :: "'v evaluator \<Rightarrow> 'v evaluator" where
  "evaluator_reset ev =
     ev\<lparr>scene_validation_results := Map.empty, scene_metric_results := Map.empty\<rparr>"

text \<open>
  A \<open>PrettyTable\<close>: its field names and its rows, here a metric name and a count. The
  standard output is the list of the tables printed so far.
\<close>

record table =
  field_names :: "string list"
  rows :: "(string \<times> int) list"

record 'v world =
  cle_evaluator :: "'v evaluator"
  stdout :: "table list"

text \<open>
  The loop over the keys of \<open>agg_log\<close>, a dictionary from metric name to count given as
  the list of its items in iteration order. The subscript \<open>agg_log[metric_name]\<close> finds
  every key that the loop visits, since they are the dictionary's own keys.
\<close>

fun add_rows :: "(string \<times> int) list \<Rightarrow> string list \<Rightarrow> table \<Rightarrow> table" where
  "add_rows agg_log [] t = t"
| "add_rows agg_log (metric_name # rest) t =
     (case map_of agg_log metric_name of
        None \<Rightarrow> add_rows agg_log rest t
      | Some count \<Rightarrow> add_rows agg_log rest (t\<lparr>rows := rows t @ [(metric_name, count)]\<rparr>))"

text \<open>
  \<open>aggregate_cle_metrics\<close>. The aggregator \<open>ValidationCountingAggregator().aggregate\<close>
  (from \<open>l5kit.cle.validators\<close>) is a parameter: it turns the validation results into the
  counts. The statements run in the order of the source: read the results, aggregate,
  reset the evaluator, build the table, print it.
\<close>

definition aggregate_cle_metrics ::
  "((int \<rightharpoonup> (string \<rightharpoonup> 'v)) \<Rightarrow> (string \<times> int) list) \<Rightarrow> 'v world \<Rightarrow> 'v world" where
  "aggregate_cle_metrics aggregate w =
     (let validation_results_log = validation_results (cle_evaluator w);
          agg_log = aggregate validation_results_log;
          w1 = w\<lparr>cle_evaluator := evaluator_reset (cle_evaluator w)\<rparr>;
          fields = [''metric'', ''log_replayed agents''];
          t = add_rows agg_log (map fst agg_log) \<lparr>field_names = fields, rows = []\<rparr>
      in w1\<lparr>stdout := stdout w1 @ [t]\<rparr>)"

section \<open>A concrete metric set and input\<close>

text \<open>
  A metric set whose \<open>evaluate\<close> stores the given series for every scene it is handed, a
  constructor that keeps the scene index only (neither writes to the simulation objects),
  and a step-0 input for scene 7.
\<close>

definition example_metrics :: "string \<rightharpoonup> real list" where
  "example_metrics =
     [''displacement_error_l2'' \<mapsto> [0, 20], ''yaw_error_ca'' \<mapsto> [0, - 0.5]]"

definition example_metrics_no_yaw :: "string \<rightharpoonup> real list" where
  "example_metrics_no_yaw = [''displacement_error_l2'' \<mapsto> [0, 20]]"

definition example_metrics_short_yaw :: "string \<rightharpoonup> real list" where
  "example_metrics_short_yaw =
     [''displacement_error_l2'' \<mapsto> [0, 20], ''yaw_error_ca'' \<mapsto> [0]]"

definition empty_metric_set :: "unit metric_set" where
  "empty_metric_set =
     \<lparr>evaluator = \<lparr>scene_validation_results = Map.empty, scene_metric_results = Map.empty\<rparr>\<rparr>"

definition example_evaluate ::
  "(string \<rightharpoonup> real list) \<Rightarrow> unit metric_set \<Rightarrow> int list \<Rightarrow> unit metric_set" where
  "example_evaluate metrics ms outs =
     ms\<lparr>evaluator := (evaluator ms)\<lparr>scene_metric_results :=
        (\<lambda>k. if k \<in> set outs then Some metrics
             else scene_metric_results (evaluator ms) k)\<rparr>\<rparr>"

definition example_collaborators ::
  "(string \<rightharpoonup> real list) \<Rightarrow> (unit, unit, int, unit, unit) collaborators" where
  "example_collaborators metrics =
     \<lparr>SimulationOutputCLE = (\<lambda>scene_id dataset ego agents. (Inr scene_id, dataset, ego, agents)),
      evaluate = (\<lambda>ms outs sim. ((None, example_evaluate metrics ms outs), sim)),
      reset = (\<lambda>ms. empty_metric_set)\<rparr>"



definition example_input :: "(unit, unit) RewardInput" where
  "example_input =
     \<lparr>frame_index = 0, scene_indices = [7], sim_dataset = (),
      ego_ins_outs = Map.empty, agents_ins_outs = Map.empty,
      ego_output_dict = [''positions'' \<mapsto> \<lparr>shape = [2, 2], data = [1, 2, 3, 4]\<rparr>],
      ego_input_dict = [''target_positions'' \<mapsto> \<lparr>shape = [2, 2], data = [1, 2, 3, 6]\<rparr>]\<rparr>"

definition example_input_same :: "(unit, unit) RewardInput" where
  "example_input_same =
     example_input\<lparr>ego_input_dict :=
       [''target_positions'' \<mapsto> \<lparr>shape = [2, 2], data = [1, 2, 3, 4]\<rparr>]\<rparr>"

definition example_input_empty :: "(unit, unit) RewardInput" where
  "example_input_empty =
     example_input\<lparr>ego_output_dict := [''positions'' \<mapsto> \<lparr>shape = [0, 2], data = []\<rparr>],
                   ego_input_dict := [''target_positions'' \<mapsto> \<lparr>shape = [0, 2], data = []\<rparr>]\<rparr>"

text \<open>
  An evaluator that holds validation results for the scenes 0 and 1 (a validator's result
  is whether the scene passed), and an aggregator that counts, per validator name, the
  scenes that failed.
\<close>

definition example_aggregate :: "(int \<rightharpoonup> (string \<rightharpoonup> bool)) \<Rightarrow> (string \<times> int) list" where
  "example_aggregate results =
     map (\<lambda>name. (name, int (length (filter
            (\<lambda>scene. case results scene of None \<Rightarrow> False | Some r \<Rightarrow> r name = Some False)
            [0, 1]))))
       [''displacement_error_l2'', ''yaw_error_ca'']"

definition example_world :: "bool world" where
  "example_world =
     \<lparr>cle_evaluator =
        \<lparr>scene_validation_results =
           [0 \<mapsto> [''displacement_error_l2'' \<mapsto> False, ''yaw_error_ca'' \<mapsto> True],
            1 \<mapsto> [''displacement_error_l2'' \<mapsto> False, ''yaw_error_ca'' \<mapsto> True]],
         scene_metric_results = Map.empty\<rparr>,
      stdout = []\<rparr>"

section \<open>Properties of the error functions\<close>

lemma trunc_neg: "trunc (- r) = - trunc r"
  by (simp add: trunc_def ceiling_def)

lemma fmod_neg: "fmod (- x) y = - fmod x y"
  by (simp add: fmod_def trunc_neg algebra_simps)

lemma fmod_small_nonneg:
  assumes "0 \<le> x" "x < y"
  shows "fmod x y = x"
proof -
  have "\<lfloor>x / y\<rfloor> = 0" using assms by (simp add: floor_eq_iff)
  thus ?thesis using assms by (simp add: fmod_def trunc_def)
qed

lemma fmod_small:
  assumes "\<bar>x\<bar> < y"
  shows "fmod x y = x"
proof (cases "0 \<le> x")
  case True
  thus ?thesis using assms fmod_small_nonneg by simp
next
  case False
  hence "fmod (- x) y = - x" using assms by (intro fmod_small_nonneg) auto
  thus ?thesis by (simp add: fmod_neg)
qed

lemma fmod_once_nonneg:
  assumes "y \<le> x" "x < 2 * y" "0 < y"
  shows "fmod x y = x - y"
proof -
  have "\<lfloor>x / y\<rfloor> = 1"
    using assms by (simp add: floor_eq_iff pos_le_divide_eq pos_divide_less_eq)
  thus ?thesis using assms by (simp add: fmod_def trunc_def)
qed

lemma fmod_once_neg:
  assumes "x \<le> - y" "- (2 * y) < x" "0 < y"
  shows "fmod x y = x + y"
proof -
  have "fmod (- x) y = - x - y" using assms by (intro fmod_once_nonneg) auto
  thus ?thesis by (simp add: fmod_neg)
qed

lemma fmod_bound_nonneg:
  assumes "0 < y" "0 \<le> x"
  shows "0 \<le> fmod x y \<and> fmod x y < y"
proof -
  let ?n = "\<lfloor>x / y\<rfloor>"
  have a: "of_int ?n \<le> x / y" and b: "x / y < of_int ?n + 1" by linarith+
  have "of_int ?n * y \<le> x" by (metis a assms(1) pos_le_divide_eq)
  moreover have "x < (of_int ?n + 1) * y" by (metis b assms(1) pos_divide_less_eq)
  ultimately show ?thesis using assms by (simp add: fmod_def trunc_def algebra_simps)
qed

lemma fmod_bound:
  assumes "0 < y"
  shows "\<bar>fmod x y\<bar> < y"
proof (cases "0 \<le> x")
  case True
  thus ?thesis using fmod_bound_nonneg[OF assms, of x] by simp
next
  case False
  thus ?thesis using fmod_bound_nonneg[OF assms, of "- x"] by (simp add: fmod_neg)
qed

lemma two_pi_pos: "0 < two_pi"
  by (simp add: two_pi_def)

lemma closest_angle1_range: "- pi \<le> closest_angle1 a b \<and> closest_angle1 a b \<le> pi"
proof -
  define w where "w = fmod (b - a) two_pi"
  have wb: "\<bar>w\<bar> < 2 * pi"
    using fmod_bound[OF two_pi_pos, of "b - a"] by (simp add: w_def two_pi_def)
  have r: "closest_angle1 a b = fmod (2 * w) (2 * pi) - w"
    by (simp add: closest_angle1_def w_def two_pi_def Let_def)
  consider "\<bar>w\<bar> < pi" | "pi \<le> w" | "w \<le> - pi" by linarith
  thus ?thesis
  proof cases
    case 1
    hence "fmod (2 * w) (2 * pi) = 2 * w" by (intro fmod_small) simp
    thus ?thesis using r 1 by (auto simp: abs_less_iff)
  next
    case 2
    hence "fmod (2 * w) (2 * pi) = 2 * w - 2 * pi"
      using wb by (intro fmod_once_nonneg) auto
    thus ?thesis using r 2 wb by (auto simp: abs_less_iff)
  next
    case 3
    hence "fmod (2 * w) (2 * pi) = 2 * w + 2 * pi"
      using wb by (intro fmod_once_neg) auto
    thus ?thesis using r 3 wb by (auto simp: abs_less_iff)
  qed
qed

lemma closest_angle1_antisym: "closest_angle1 a b = - closest_angle1 b a"
proof -
  have "b - a = - (a - b)" by simp
  hence "fmod (b - a) two_pi = - fmod (a - b) two_pi" by (metis fmod_neg)
  thus ?thesis by (simp add: closest_angle1_def Let_def fmod_neg)
qed

lemma closest_angle1_self: "closest_angle1 a a = 0"
  by (simp add: closest_angle1_def fmod_def trunc_def)

lemma closest_angle1_zero_pi: "closest_angle1 0 pi = - pi"
  by (simp add: closest_angle1_def fmod_def two_pi_def trunc_def)

lemma map2_closest_angle1_swap:
  "map2 closest_angle1 xs ys = map uminus (map2 closest_angle1 ys xs)"
proof (induction xs arbitrary: ys)
  case Nil
  show ?case by simp
next
  case (Cons x xs)
  show ?case
  proof (cases ys)
    case Nil
    thus ?thesis by simp
  next
    case (Cons y ys')
    thus ?thesis using Cons.IH[of ys'] closest_angle1_antisym[of x y] by simp
  qed
qed

lemma map2_closest_angle1_self: "map2 closest_angle1 xs xs = map (\<lambda>_. 0) xs"
  by (induction xs) (simp_all add: closest_angle1_self)

text \<open>
  C2 (as amended). For equally shaped tensors \<open>closest_angle\<close> returns, and every entry of
  the result lies in the closed interval from \<open>- pi\<close> to \<open>pi\<close>, both ends included; the
  shape of the result is the common shape.
\<close>

theorem closest_angle_closed_range:
  assumes "shape a = shape b"
  shows "\<exists>r. closest_angle a b = Inr r \<and> shape r = shape a \<and>
             list_all (\<lambda>v. - pi \<le> v \<and> v \<le> pi) (data r)"
proof -
  have "list_all (\<lambda>v. - pi \<le> v \<and> v \<le> pi) (map2 closest_angle1 (data a) (data b))"
    using closest_angle1_range by (auto simp: list_all_iff)
  thus ?thesis using assms by (simp add: closest_angle_def)
qed

theorem closest_angle_closed_range_witness:
  "\<exists>r. closest_angle \<lparr>shape = [2], data = [0, 1]\<rparr> \<lparr>shape = [2], data = [pi, 3]\<rparr> = Inr r \<and>
       shape r = [2] \<and> list_all (\<lambda>v. - pi \<le> v \<and> v \<le> pi) (data r)"
  using closest_angle_closed_range
          [of "\<lparr>shape = [2], data = [0, 1]\<rparr>" "\<lparr>shape = [2], data = [pi, 3]\<rparr>"]
  by simp

text \<open>
  C2 (as stated) fails at the lower end: for the angles \<open>0\<close> and \<open>pi\<close> the result is
  \<open>- pi\<close> itself, which is not strictly greater than \<open>- pi\<close>.
\<close>

theorem closest_angle_half_open_counterexample:
  "closest_angle \<lparr>shape = [1], data = [0]\<rparr> \<lparr>shape = [1], data = [pi]\<rparr>
     = Inr \<lparr>shape = [1], data = [- pi]\<rparr> \<and>
   \<not> list_all (\<lambda>v. - pi < v \<and> v \<le> pi) [- pi]"
  by (simp add: closest_angle_def closest_angle1_zero_pi)

text \<open>
  C7. For equally shaped tensors, \<open>closest_angle a b\<close> is the entrywise negation of
  \<open>closest_angle b a\<close>, and \<open>closest_angle a a\<close> is zero in every entry.
\<close>

theorem closest_angle_antisymmetric:
  assumes "shape a = shape b"
  shows "\<exists>r. closest_angle b a = Inr r \<and> closest_angle a b = Inr (tensor_neg r) \<and>
             closest_angle a a = Inr (zeros_like a)"
  using assms map2_closest_angle1_swap[of "data a" "data b"]
  by (simp add: closest_angle_def tensor_neg_def zeros_like_def map2_closest_angle1_self)

theorem closest_angle_antisymmetric_witness:
  "\<exists>r. closest_angle \<lparr>shape = [2], data = [pi, 3]\<rparr> \<lparr>shape = [2], data = [0, 1]\<rparr> = Inr r \<and>
       closest_angle \<lparr>shape = [2], data = [0, 1]\<rparr> \<lparr>shape = [2], data = [pi, 3]\<rparr>
         = Inr (tensor_neg r) \<and>
       closest_angle \<lparr>shape = [2], data = [0, 1]\<rparr> \<lparr>shape = [2], data = [0, 1]\<rparr>
         = Inr (zeros_like \<lparr>shape = [2], data = [0, 1]\<rparr>)"
  using closest_angle_antisymmetric
          [of "\<lparr>shape = [2], data = [0, 1]\<rparr>" "\<lparr>shape = [2], data = [pi, 3]\<rparr>"]
  by simp

section \<open>Properties of the closed-loop reward\<close>

text \<open>
  The call that returns. With one scene index \<open>s\<close>, a constructor and an \<open>evaluate\<close> that
  do not raise, both series present for the scene with an entry at \<open>frame_index + 1\<close>, and
  a \<open>yaw_weight\<close> that is a number, \<open>get_reward\<close> returns the combined reward, stores the
  metric set that \<open>evaluate\<close> left and writes the displacement error to \<open>stop_error\<close>.
\<close>

lemma CLE_get_reward_returns:
  assumes "scene_indices ri = [s]"
      and "SimulationOutputCLE ext s (sim_dataset ri) (ego_ins_outs ri) (agents_ins_outs ri)
             = (Inr so, sim)"
      and "evaluate ext (metric_set self) [so] sim = ((None, ms), sim')"
      and "scene_metric_results (evaluator ms) s = Some m"
      and "m ''displacement_error_l2'' = Some ds" "py_index ds (frame_index ri + 1) = Some d"
      and "m ''yaw_error_ca'' = Some ys" "py_index ys (frame_index ri + 1) = Some y"
      and "yaw_weight self = Some w"
  shows "CLE_get_reward ext self ri =
           \<lparr>returned = Inr (combine_reward self d (w * \<bar>y\<bar>)),
            self_after = self\<lparr>metric_set := ms, stop_error := Some d\<rparr>,
            input_after = with_simulation ri sim'\<rparr>"
  using assms
  by (simp add: CLE_get_reward_def Let_def get_cle_metrics_def combine_reward_def clip_reward_def
        simulation_of_def)

text \<open>What the call returns or raises once the displacement error has been read.\<close>

lemma CLE_get_reward_after_displacement:
  assumes "scene_indices ri = [s]"
      and "SimulationOutputCLE ext s (sim_dataset ri) (ego_ins_outs ri) (agents_ins_outs ri)
             = (Inr so, sim)"
      and "evaluate ext (metric_set self) [so] sim = ((None, ms), sim')"
      and "scene_metric_results (evaluator ms) s = Some m"
      and "m ''displacement_error_l2'' = Some ds" "py_index ds (frame_index ri + 1) = Some d"
  shows "returned (CLE_get_reward ext self ri) =
           (case m ''yaw_error_ca'' of
              None \<Rightarrow> Inl (Raised KeyError)
            | Some ys \<Rightarrow>
                (case py_index ys (frame_index ri + 1) of
                   None \<Rightarrow> Inl (Raised IndexError)
                 | Some y \<Rightarrow>
                     (case yaw_weight self of
                        None \<Rightarrow> Inl (Raised TypeError)
                      | Some w \<Rightarrow> Inr (combine_reward self d (w * \<bar>y\<bar>)))))"
  using assms
  by (simp add: CLE_get_reward_def Let_def get_cle_metrics_def combine_reward_def clip_reward_def
        simulation_of_def split: option.splits)

lemma get_cle_metrics_not_assert: "get_cle_metrics self s i \<noteq> Inl AssertionError"
  by (auto simp: get_cle_metrics_def split: option.splits)

lemma generate_simulated_outputs_not_assert:
  "fst (generate_simulated_outputs ext idxs sim acc) \<noteq> Inl (Raised AssertionError)"
  by (induction ext idxs sim acc rule: generate_simulated_outputs.induct)
     (auto split: sum.splits prod.splits)

lemma combine_reward_metric_set:
  "combine_reward (self\<lparr>metric_set := ms\<rparr>) d y = combine_reward self d y"
  by (simp add: combine_reward_def clip_reward_def)

text \<open>
  The hypotheses of \<open>CLE_get_reward_returns\<close> are necessary: a call that returns a reward
  has met every one of them.
\<close>

lemma CLE_get_reward_returns_only_if:
  assumes "returned (CLE_get_reward ext self ri) = Inr r"
  shows "\<exists>s so sim ms sim' m ds d ys y w.
           scene_indices ri = [s] \<and>
           SimulationOutputCLE ext s (sim_dataset ri) (ego_ins_outs ri) (agents_ins_outs ri)
             = (Inr so, sim) \<and>
           evaluate ext (metric_set self) [so] sim = ((None, ms), sim') \<and>
           scene_metric_results (evaluator ms) s = Some m \<and>
           m ''displacement_error_l2'' = Some ds \<and> py_index ds (frame_index ri + 1) = Some d \<and>
           m ''yaw_error_ca'' = Some ys \<and> py_index ys (frame_index ri + 1) = Some y \<and>
           yaw_weight self = Some w \<and> r = combine_reward self d (w * \<bar>y\<bar>)"
proof -
  from assms have "length (scene_indices ri) = 1"
    by (auto simp: CLE_get_reward_def split: if_splits)
  then obtain s where s: "scene_indices ri = [s]"
    by (cases "scene_indices ri") auto
  show ?thesis
    using assms s
    by (auto simp: CLE_get_reward_def Let_def get_cle_metrics_def combine_reward_metric_set
          simulation_of_def split: sum.splits option.splits prod.splits)
qed

text \<open>
  C1. With \<open>use_yaw = False\<close> and clipping enabled, a call with exactly one scene index
  returns \<open>max (- rew_clip_thresh) (- d)\<close>, where \<open>d\<close> is the entry at \<open>frame_index + 1\<close> of
  the scene's displacement-error series; that reward is never below \<open>- rew_clip_thresh\<close>.
  The hypotheses are those under which the call returns at all.
\<close>

theorem CLE_get_reward_clipped_without_yaw:
  assumes "scene_indices ri = [s]"
      and "SimulationOutputCLE ext s (sim_dataset ri) (ego_ins_outs ri) (agents_ins_outs ri)
             = (Inr so, sim)"
      and "evaluate ext (metric_set self) [so] sim = ((None, ms), sim')"
      and "scene_metric_results (evaluator ms) s = Some m"
      and "m ''displacement_error_l2'' = Some ds" "py_index ds (frame_index ri + 1) = Some d"
      and "m ''yaw_error_ca'' = Some ys" "py_index ys (frame_index ri + 1) = Some y"
      and "yaw_weight self = Some w"
      and "use_yaw self = Some False" "enable_clip self"
  shows "returned (CLE_get_reward ext self ri) = Inr (max (- rew_clip_thresh self) (- d)) \<and>
         - rew_clip_thresh self \<le> max (- rew_clip_thresh self) (- d)"
  using CLE_get_reward_returns[OF assms(1-9)] assms(10,11)
  by (simp add: combine_reward_def clip_reward_def)

theorem CLE_get_reward_clipped_without_yaw_witness:
  "returned (CLE_get_reward (example_collaborators example_metrics)
      ((CLE_Reward_init empty_metric_set)\<lparr>use_yaw := Some False\<rparr>) example_input)
     = Inr (- 15)"
  using CLE_get_reward_clipped_without_yaw[where ri = example_input and s = 7
      and ext = "example_collaborators example_metrics" and so = 7
      and sim = "((), Map.empty, Map.empty)" and sim' = "((), Map.empty, Map.empty)"
      and self = "(CLE_Reward_init empty_metric_set)\<lparr>use_yaw := Some False\<rparr>"
      and ms = "example_evaluate example_metrics empty_metric_set [7]"
      and m = example_metrics
      and ds = "[0, 20]" and d = 20 and ys = "[0, - 0.5]" and y = "- 0.5" and w = 3]
  by (simp add: example_input_def example_collaborators_def example_evaluate_def
        example_metrics_def CLE_Reward_init_def empty_metric_set_def py_index_def)

text \<open>
  C3. When the list of scene indices does not have length 1, \<open>get_reward\<close> raises
  \<open>AssertionError\<close> and nothing else has happened: the receiver, with its metric set, is
  as before, whatever the collaborators are. With exactly one scene index the call does
  not raise \<open>AssertionError\<close>.
\<close>

theorem CLE_get_reward_asserts_single_scene:
  "(length (scene_indices ri) \<noteq> 1 \<longrightarrow>
      CLE_get_reward ext self ri =
        \<lparr>returned = Inl (Raised AssertionError), self_after = self, input_after = ri\<rparr>) \<and>
   (length (scene_indices ri) = 1 \<longrightarrow>
      returned (CLE_get_reward ext self ri) \<noteq> Inl (Raised AssertionError))"
proof -
  have "returned (CLE_get_reward ext self ri) \<noteq> Inl (Raised AssertionError)"
    if "length (scene_indices ri) = 1"
    using that get_cle_metrics_not_assert[of _ _ "frame_index ri"]
      generate_simulated_outputs_not_assert[of ext "scene_indices ri" "simulation_of ri" "[]"]
    by (auto simp: CLE_get_reward_def Let_def split: sum.splits prod.splits option.splits)
  thus ?thesis by (simp add: CLE_get_reward_def)
qed

theorem CLE_get_reward_asserts_single_scene_witness:
  "CLE_get_reward (example_collaborators example_metrics) (CLE_Reward_init empty_metric_set)
      (example_input\<lparr>scene_indices := [7, 8]\<rparr>) =
     \<lparr>returned = Inl (Raised AssertionError), self_after = CLE_Reward_init empty_metric_set,
      input_after = example_input\<lparr>scene_indices := [7, 8]\<rparr>\<rparr> \<and>
   returned (CLE_get_reward (example_collaborators example_metrics)
      (CLE_Reward_init empty_metric_set) example_input) \<noteq> Inl (Raised AssertionError)"
  using CLE_get_reward_asserts_single_scene
          [of "example_input\<lparr>scene_indices := [7, 8]\<rparr>"
              "example_collaborators example_metrics" "CLE_Reward_init empty_metric_set"]
        CLE_get_reward_asserts_single_scene
          [of example_input "example_collaborators example_metrics"
              "CLE_Reward_init empty_metric_set"]
  by (simp add: example_input_def)

text \<open>
  C4. With \<open>use_yaw = True\<close>, a call with exactly one scene index returns the negative
  displacement error, clipped at \<open>- rew_clip_thresh\<close> when clipping is enabled, minus
  \<open>yaw_weight\<close> times the absolute value of the yaw-error entry at \<open>frame_index + 1\<close>.
\<close>

theorem CLE_get_reward_with_yaw:
  assumes "scene_indices ri = [s]"
      and "SimulationOutputCLE ext s (sim_dataset ri) (ego_ins_outs ri) (agents_ins_outs ri)
             = (Inr so, sim)"
      and "evaluate ext (metric_set self) [so] sim = ((None, ms), sim')"
      and "scene_metric_results (evaluator ms) s = Some m"
      and "m ''displacement_error_l2'' = Some ds" "py_index ds (frame_index ri + 1) = Some d"
      and "m ''yaw_error_ca'' = Some ys" "py_index ys (frame_index ri + 1) = Some y"
      and "yaw_weight self = Some w"
      and "use_yaw self = Some True"
  shows "returned (CLE_get_reward ext self ri) =
           Inr ((if enable_clip self then max (- rew_clip_thresh self) (- d) else - d)
                - w * \<bar>y\<bar>)"
  using CLE_get_reward_returns[OF assms(1-9)] assms(10)
  by (simp add: combine_reward_def clip_reward_def)

theorem CLE_get_reward_with_yaw_witness:
  "returned (CLE_get_reward (example_collaborators example_metrics)
      (CLE_Reward_init empty_metric_set) example_input) = Inr (- 16.5)"
  using CLE_get_reward_with_yaw[where ri = example_input and s = 7
      and ext = "example_collaborators example_metrics"
      and so = 7
      and sim = "((), Map.empty, Map.empty)" and sim' = "((), Map.empty, Map.empty)" and self = "CLE_Reward_init empty_metric_set"
      and ms = "example_evaluate example_metrics empty_metric_set [7]"
      and m = example_metrics
      and ds = "[0, 20]" and d = 20 and ys = "[0, - 0.5]" and y = "- 0.5" and w = 3]
  by (simp add: example_input_def example_collaborators_def example_evaluate_def
        example_metrics_def CLE_Reward_init_def empty_metric_set_def py_index_def)

text \<open>
  C8. A call that returns leaves in \<open>stop_error\<close> the displacement-error entry at
  \<open>frame_index + 1\<close> as read, neither clipped nor reduced by the yaw term, whatever
  \<open>stop_flag\<close> is.
\<close>

theorem CLE_get_reward_records_stop_error:
  assumes "scene_indices ri = [s]"
      and "SimulationOutputCLE ext s (sim_dataset ri) (ego_ins_outs ri) (agents_ins_outs ri)
             = (Inr so, sim)"
      and "evaluate ext (metric_set self) [so] sim = ((None, ms), sim')"
      and "scene_metric_results (evaluator ms) s = Some m"
      and "m ''displacement_error_l2'' = Some ds" "py_index ds (frame_index ri + 1) = Some d"
      and "m ''yaw_error_ca'' = Some ys" "py_index ys (frame_index ri + 1) = Some y"
      and "yaw_weight self = Some w"
  shows "stop_error (self_after (CLE_get_reward ext (self\<lparr>stop_flag := flag\<rparr>) ri)) = Some d"
  using CLE_get_reward_returns[where self = "self\<lparr>stop_flag := flag\<rparr>" and ri = ri and s = s
      and ext = ext and so = so and sim = sim and ms = ms and sim' = sim' and m = m and ds = ds
      and d = d and ys = ys and y = y and w = w] assms
  by simp

theorem CLE_get_reward_records_stop_error_witness:
  "stop_error (self_after (CLE_get_reward (example_collaborators example_metrics)
      ((CLE_Reward_init empty_metric_set)\<lparr>stop_flag := Some True\<rparr>) example_input)) = Some 20"
  using CLE_get_reward_records_stop_error[where ri = example_input and s = 7
      and ext = "example_collaborators example_metrics"
      and so = 7
      and sim = "((), Map.empty, Map.empty)" and sim' = "((), Map.empty, Map.empty)" and self = "CLE_Reward_init empty_metric_set" and flag = "Some True"
      and ms = "example_evaluate example_metrics empty_metric_set [7]"
      and m = example_metrics
      and ds = "[0, 20]" and d = 20 and ys = "[0, - 0.5]" and y = "- 0.5" and w = 3]
  by (simp add: example_input_def example_collaborators_def example_evaluate_def
        example_metrics_def CLE_Reward_init_def empty_metric_set_def py_index_def)

text \<open>
  C10. Once the displacement error has been read, the yaw-error series is read at
  \<open>frame_index + 1\<close> and multiplied by \<open>yaw_weight\<close> whatever \<open>use_yaw\<close> is: a missing
  \<open>yaw_error_ca\<close> key raises \<open>KeyError\<close>, a series with no entry at that index raises
  \<open>IndexError\<close>, and a \<open>yaw_weight\<close> of \<open>None\<close> raises \<open>TypeError\<close>, for every value
  \<open>flag\<close> of \<open>use_yaw\<close>.
\<close>

theorem CLE_get_reward_reads_yaw_regardless:
  assumes "scene_indices ri = [s]"
      and "SimulationOutputCLE ext s (sim_dataset ri) (ego_ins_outs ri) (agents_ins_outs ri)
             = (Inr so, sim)"
      and "evaluate ext (metric_set self) [so] sim = ((None, ms), sim')"
      and "scene_metric_results (evaluator ms) s = Some m"
      and "m ''displacement_error_l2'' = Some ds" "py_index ds (frame_index ri + 1) = Some d"
  shows "(m ''yaw_error_ca'' = None \<longrightarrow>
            returned (CLE_get_reward ext (self\<lparr>use_yaw := flag\<rparr>) ri) = Inl (Raised KeyError)) \<and>
         (\<forall>ys. m ''yaw_error_ca'' = Some ys \<longrightarrow> py_index ys (frame_index ri + 1) = None \<longrightarrow>
            returned (CLE_get_reward ext (self\<lparr>use_yaw := flag\<rparr>) ri)
              = Inl (Raised IndexError)) \<and>
         (\<forall>ys y. m ''yaw_error_ca'' = Some ys \<longrightarrow> py_index ys (frame_index ri + 1) = Some y \<longrightarrow>
            yaw_weight self = None \<longrightarrow>
            returned (CLE_get_reward ext (self\<lparr>use_yaw := flag\<rparr>) ri)
              = Inl (Raised TypeError))"
  using CLE_get_reward_after_displacement[where self = "self\<lparr>use_yaw := flag\<rparr>" and ri = ri
      and s = s and ext = ext and so = so and sim = sim and ms = ms and sim' = sim' and m = m
      and ds = ds and d = d] assms
  by simp

theorem CLE_get_reward_reads_yaw_regardless_witness:
  "returned (CLE_get_reward (example_collaborators example_metrics_no_yaw)
      ((CLE_Reward_init empty_metric_set)\<lparr>use_yaw := Some False\<rparr>) example_input)
     = Inl (Raised KeyError) \<and>
   returned (CLE_get_reward (example_collaborators example_metrics_short_yaw)
      ((CLE_Reward_init empty_metric_set)\<lparr>use_yaw := Some False\<rparr>) example_input)
     = Inl (Raised IndexError) \<and>
   returned (CLE_get_reward (example_collaborators example_metrics)
      ((CLE_Reward_init empty_metric_set)\<lparr>yaw_weight := None, use_yaw := Some False\<rparr>)
      example_input)
     = Inl (Raised TypeError)"
  using CLE_get_reward_reads_yaw_regardless[where ri = example_input and s = 7
      and ext = "example_collaborators example_metrics_no_yaw"
      and so = 7
      and sim = "((), Map.empty, Map.empty)" and sim' = "((), Map.empty, Map.empty)" and self = "CLE_Reward_init empty_metric_set" and flag = "Some False"
      and ms = "example_evaluate example_metrics_no_yaw empty_metric_set [7]"
      and m = example_metrics_no_yaw and ds = "[0, 20]" and d = 20]
    CLE_get_reward_reads_yaw_regardless[where ri = example_input and s = 7
      and ext = "example_collaborators example_metrics_short_yaw"
      and so = 7
      and sim = "((), Map.empty, Map.empty)" and sim' = "((), Map.empty, Map.empty)" and self = "CLE_Reward_init empty_metric_set" and flag = "Some False"
      and ms = "example_evaluate example_metrics_short_yaw empty_metric_set [7]"
      and m = example_metrics_short_yaw and ds = "[0, 20]" and d = 20]
    CLE_get_reward_reads_yaw_regardless[where ri = example_input and s = 7
      and ext = "example_collaborators example_metrics"
      and so = 7
      and sim = "((), Map.empty, Map.empty)" and sim' = "((), Map.empty, Map.empty)" and self = "(CLE_Reward_init empty_metric_set)\<lparr>yaw_weight := None\<rparr>"
      and flag = "Some False"
      and ms = "example_evaluate example_metrics empty_metric_set [7]"
      and m = example_metrics and ds = "[0, 20]" and d = 20]
  by (simp add: example_input_def example_collaborators_def example_evaluate_def
        example_metrics_no_yaw_def example_metrics_short_yaw_def example_metrics_def
        CLE_Reward_init_def empty_metric_set_def py_index_def)

section \<open>Properties of the numpy operations\<close>

lemma broadcast_rev_same: "broadcast_rev xs xs = Some xs"
  by (induction xs) auto

lemma broadcast_shapes_same: "broadcast_shapes s s = Some s"
  by (simp add: broadcast_shapes_def broadcast_rev_same)

lemma ndindex_length: "idx \<in> set (ndindex s) \<Longrightarrow> length idx = length s"
  by (induction s arbitrary: idx) auto

lemma concat_blocks:
  "concat (map (\<lambda>i. [(b + i) * P ..< (b + i) * P + P]) [0..<d]) = [b * P ..< b * P + d * P]"
proof (induction d)
  case 0
  show ?case by simp
next
  case (Suc d)
  have "[b * P ..< b * P + Suc d * P]
          = [b * P ..< b * P + d * P] @ [(b + d) * P ..< (b + d) * P + P]"
    using upt_add_eq_append[of "b * P" "b * P + d * P" P] by (simp add: algebra_simps)
  thus ?case using Suc by simp
qed

lemma ravel_ndindex:
  "map (\<lambda>idx. ravel s idx acc) (ndindex s)
     = [acc * prod_list s ..< acc * prod_list s + prod_list s]"
proof (induction s arbitrary: acc)
  case Nil
  show ?case by simp
next
  case (Cons d ds)
  have "map (\<lambda>idx. ravel (d # ds) idx acc) (ndindex (d # ds))
      = concat (map (\<lambda>i. map (\<lambda>is. ravel ds is (acc * d + i)) (ndindex ds)) [0..<d])"
    by (auto simp: map_concat comp_def intro!: arg_cong[where f = concat])
  also have "\<dots> = concat (map (\<lambda>i. [(acc * d + i) * prod_list ds
                                      ..< (acc * d + i) * prod_list ds + prod_list ds]) [0..<d])"
    by (simp add: Cons.IH)
  also have "\<dots> = [acc * d * prod_list ds ..< acc * d * prod_list ds + d * prod_list ds]"
    by (rule concat_blocks)
  finally show ?case by (simp add: algebra_simps)
qed

lemma flat_index_ndindex: "map (flat_index s) (ndindex s) = [0..<prod_list s]"
proof -
  have "map (flat_index s) (ndindex s) = map (\<lambda>idx. ravel s idx 0) (ndindex s)"
    by (rule map_cong) (simp_all add: flat_index_def ndindex_length)
  thus ?thesis using ravel_ndindex[of s 0] by simp
qed

lemma map_nth_zip:
  assumes "length xs = n" "length ys = n"
  shows "map (\<lambda>k. f (xs ! k) (ys ! k)) [0..<n] = map2 f xs ys"
  using assms by (intro nth_equalityI) auto

lemma np_subtract_same_shape:
  assumes "shape a = shape b" "well_formed a" "well_formed b"
  shows "np_subtract a b = Some \<lparr>shape = shape a, data = map2 (-) (data a) (data b)\<rparr>"
proof -
  let ?s = "shape a"
  have "map (\<lambda>idx. data a ! flat_index ?s idx - data b ! flat_index ?s idx) (ndindex ?s)
      = map (\<lambda>k. data a ! k - data b ! k) (map (flat_index ?s) (ndindex ?s))"
    by (simp add: comp_def)
  also have "\<dots> = map2 (-) (data a) (data b)"
    using assms by (simp add: flat_index_ndindex well_formed_def map_nth_zip)
  finally show ?thesis using assms by (simp add: np_subtract_def broadcast_shapes_same)
qed

lemma sum_list_squares_nonneg: "0 \<le> sum_list (map (\<lambda>x. x * x) (xs :: real list))"
  by (induction xs) simp_all

lemma map2_diff_self: "map2 (\<lambda>x y. (x - y) * (x - y)) xs xs = map (\<lambda>_. 0::real) xs"
  by (induction xs) simp_all

lemma sum_list_zeros: "sum_list (map (\<lambda>_. 0::real) xs) = 0"
  by (induction xs) simp_all

lemma square_of_difference:
  "map (\<lambda>x. x * x) (map2 (-) xs ys) = map2 (\<lambda>x y. (x - y) * (x - y)) (xs :: real list) ys"
  by (induction xs arbitrary: ys) (simp, case_tac ys, simp_all)

section \<open>Properties of the open-loop reward\<close>

lemma OLE_get_reward_not_positive:
  assumes "returned (OLE_get_reward self ri) = Inr (Float r)"
  shows "r \<le> 0"
proof -
  from assms obtain a where r: "float_neg (np_mean (np_square a)) = Float r"
    by (auto simp: OLE_get_reward_def Let_def split: option.splits)
  show ?thesis
  proof (cases "data a = []")
    case True
    thus ?thesis using r by (simp add: np_mean_def np_square_def float_neg_def)
  next
    case False
    hence "r = - (sum_list (map (\<lambda>x. x * x) (data a)) / real (length (data a)))"
      using r by (auto simp: np_mean_def np_square_def float_neg_def)
    thus ?thesis using sum_list_squares_nonneg[of "data a"] by simp
  qed
qed

lemma OLE_get_reward_value:
  assumes "ego_output_dict ri ''positions'' = Some p"
      and "ego_input_dict ri ''target_positions'' = Some t"
      and "shape p = shape t" "well_formed p" "well_formed t" "data p \<noteq> []"
  shows "OLE_get_reward self ri =
           \<lparr>returned = Inr (Float (- (sum_list (map2 (\<lambda>x y. (x - y) * (x - y)) (data p) (data t))
                                    / real (length (data p))))),
            self_after = self, input_after = ri\<rparr>"
proof -
  have len: "length (data t) = length (data p)"
    using assms by (simp add: well_formed_def)
  hence ne: "data t \<noteq> []" using assms(6) by auto
  have sub: "np_subtract p t = Some \<lparr>shape = shape p, data = map2 (-) (data p) (data t)\<rparr>"
    using assms by (intro np_subtract_same_shape)
  have sq: "data (np_square \<lparr>shape = shape p, data = map2 (-) (data p) (data t)\<rparr>)
              = map2 (\<lambda>x y. (x - y) * (x - y)) (data p) (data t)"
    unfolding np_square_def by (simp only: tensor.simps square_of_difference)
  have mean: "np_mean (np_square \<lparr>shape = shape p, data = map2 (-) (data p) (data t)\<rparr>)
                = Float (sum_list (map2 (\<lambda>x y. (x - y) * (x - y)) (data p) (data t))
                          / real (length (data p)))"
    unfolding np_mean_def sq using ne assms(6) len by simp
  show ?thesis
    using assms(1,2) sub mean
    by (simp add: OLE_get_reward_def Let_def float_neg_def)
qed

text \<open>For arrays with no entries the mean, and so the reward, is \<open>nan\<close>.\<close>

lemma OLE_get_reward_no_entries:
  assumes "ego_output_dict ri ''positions'' = Some p"
      and "ego_input_dict ri ''target_positions'' = Some t"
      and "shape p = shape t" "well_formed p" "well_formed t" "data p = []"
  shows "returned (OLE_get_reward self ri) = Inr NaN"
proof -
  have "np_subtract p t = Some \<lparr>shape = shape p, data = map2 (-) (data p) (data t)\<rparr>"
    using assms by (intro np_subtract_same_shape)
  thus ?thesis
    using assms(1,2,6)
    by (simp add: OLE_get_reward_def Let_def np_mean_def np_square_def float_neg_def)
qed

text \<open>
  C5 (as amended). For predicted and target positions that are present, well-formed and
  of the same shape: when they have at least one entry, the open-loop \<open>get_reward\<close>
  returns the negated mean of the squared entrywise differences, which is 0 when the two
  arrays are identical; when they have no entry it returns \<open>nan\<close>; and whatever number
  the call returns is never positive.
\<close>

theorem OLE_get_reward_negated_mse:
  assumes "ego_output_dict ri ''positions'' = Some p"
      and "ego_input_dict ri ''target_positions'' = Some t"
      and "shape p = shape t" "well_formed p" "well_formed t"
  shows "(data p \<noteq> [] \<longrightarrow>
            returned (OLE_get_reward self ri) =
              Inr (Float (- (sum_list (map2 (\<lambda>x y. (x - y) * (x - y)) (data p) (data t))
                              / real (length (data p))))) \<and>
            (p = t \<longrightarrow> returned (OLE_get_reward self ri) = Inr (Float 0))) \<and>
         (data p = [] \<longrightarrow> returned (OLE_get_reward self ri) = Inr NaN) \<and>
         (\<forall>r. returned (OLE_get_reward self ri) = Inr (Float r) \<longrightarrow> r \<le> 0)"
proof -
  have "returned (OLE_get_reward self ri) =
           Inr (Float (- (sum_list (map2 (\<lambda>x y. (x - y) * (x - y)) (data p) (data t))
                           / real (length (data p)))))" if "data p \<noteq> []"
    using OLE_get_reward_value[OF assms that, of self] by simp
  moreover have "returned (OLE_get_reward self ri) = Inr (Float 0)" if "data p \<noteq> []" "p = t"
    using OLE_get_reward_value[OF assms that(1), of self] that(2)
    by (simp add: map2_diff_self sum_list_zeros)
  moreover have "returned (OLE_get_reward self ri) = Inr NaN" if "data p = []"
    using OLE_get_reward_no_entries[OF assms that] .
  moreover have "\<forall>r. returned (OLE_get_reward self ri) = Inr (Float r) \<longrightarrow> r \<le> 0"
    using OLE_get_reward_not_positive[of self ri] by blast
  ultimately show ?thesis by blast
qed

theorem OLE_get_reward_negated_mse_witness:
  "returned (OLE_get_reward OLE_Reward_init example_input) = Inr (Float (- 1)) \<and>
   returned (OLE_get_reward OLE_Reward_init example_input_same) = Inr (Float 0)"
proof -
  let ?p = "\<lparr>shape = [2, 2], data = [1, 2, 3, 4]\<rparr> :: ndarray"
  let ?t = "\<lparr>shape = [2, 2], data = [1, 2, 3, 6]\<rparr> :: ndarray"
  have p: "ego_output_dict example_input ''positions'' = Some ?p"
    by (simp add: example_input_def)
  have t: "ego_input_dict example_input ''target_positions'' = Some ?t"
    by (simp add: example_input_def)
  have p': "ego_output_dict example_input_same ''positions'' = Some ?p"
    by (simp add: example_input_same_def example_input_def)
  have t': "ego_input_dict example_input_same ''target_positions'' = Some ?p"
    by (simp add: example_input_same_def example_input_def)
  have wp: "well_formed ?p" and wt: "well_formed ?t"
    by (simp_all add: well_formed_def)
  have "returned (OLE_get_reward OLE_Reward_init example_input) = Inr (Float (- 1))"
    using OLE_get_reward_negated_mse[OF p t _ wp wt, of OLE_Reward_init] by simp
  moreover have "returned (OLE_get_reward OLE_Reward_init example_input_same) = Inr (Float 0)"
    using OLE_get_reward_negated_mse[OF p' t' _ wp wp, of OLE_Reward_init] by simp
  ultimately show ?thesis by simp
qed

text \<open>
  C5 (as stated) fails for identical arrays with no entries, such as two arrays of shape
  \<open>(0, 2)\<close>: the result is \<open>nan\<close>, not 0.
\<close>

theorem OLE_get_reward_identical_empty_counterexample:
  "ego_output_dict example_input_empty ''positions''
     = ego_input_dict example_input_empty ''target_positions'' \<and>
   returned (OLE_get_reward OLE_Reward_init example_input_empty) = Inr NaN \<and>
   returned (OLE_get_reward OLE_Reward_init example_input_empty) \<noteq> Inr (Float 0)"
proof -
  let ?e = "\<lparr>shape = [0, 2], data = []\<rparr> :: ndarray"
  have p: "ego_output_dict example_input_empty ''positions'' = Some ?e"
    by (simp add: example_input_empty_def example_input_def)
  have t: "ego_input_dict example_input_empty ''target_positions'' = Some ?e"
    by (simp add: example_input_empty_def example_input_def)
  have "returned (OLE_get_reward OLE_Reward_init example_input_empty) = Inr NaN"
    using OLE_get_reward_no_entries[OF p t, of OLE_Reward_init] by (simp add: well_formed_def)
  thus ?thesis using p t by simp
qed


section \<open>The reward input is not written\<close>









section \<open>Properties of the aggregation utility\<close>

lemma add_rows_items:
  assumes "distinct (map fst agg_log)" "set items \<subseteq> set agg_log"
  shows "add_rows agg_log (map fst items) t = t\<lparr>rows := rows t @ items\<rparr>"
  using assms(2)
proof (induction items arbitrary: t)
  case Nil
  show ?case by simp
next
  case (Cons item items)
  obtain k v where item: "item = (k, v)" by (cases item)
  hence "map_of agg_log k = Some v" using Cons.prems assms(1) by simp
  thus ?case using Cons item by simp
qed

text \<open>
  C6. After \<open>aggregate_cle_metrics\<close> the evaluator is the reset one, so its store of
  validation results is empty, and the table printed holds the counts that the aggregator
  computed from the validation results held before the reset (its rows are the
  aggregator's items, whose keys are distinct as a dictionary's are).
\<close>

theorem aggregate_cle_metrics_resets_after_reading:
  "validation_results (cle_evaluator (aggregate_cle_metrics aggregate w)) = Map.empty \<and>
   cle_evaluator (aggregate_cle_metrics aggregate w) = evaluator_reset (cle_evaluator w) \<and>
   (distinct (map fst (aggregate (validation_results (cle_evaluator w)))) \<longrightarrow>
      stdout (aggregate_cle_metrics aggregate w) =
        stdout w @ [\<lparr>field_names = [''metric'', ''log_replayed agents''],
                     rows = aggregate (validation_results (cle_evaluator w))\<rparr>])"
  using add_rows_items[of "aggregate (validation_results (cle_evaluator w))"
          "aggregate (validation_results (cle_evaluator w))"]
  by (simp add: aggregate_cle_metrics_def Let_def validation_results_def evaluator_reset_def)


theorem aggregate_cle_metrics_resets_after_reading_witness:
  "validation_results (cle_evaluator (aggregate_cle_metrics example_aggregate example_world))
     = Map.empty \<and>
   stdout (aggregate_cle_metrics example_aggregate example_world) =
     [\<lparr>field_names = [''metric'', ''log_replayed agents''],
       rows = [(''displacement_error_l2'', 2), (''yaw_error_ca'', 0)]\<rparr>]"
proof -
  note reset_after_reading =
    aggregate_cle_metrics_resets_after_reading[of example_aggregate example_world]
  have counts: "example_aggregate (validation_results (cle_evaluator example_world))
                  = [(''displacement_error_l2'', 2), (''yaw_error_ca'', 0)]"
    by (simp add: example_aggregate_def example_world_def validation_results_def)
  have "distinct (map fst (example_aggregate (validation_results (cle_evaluator example_world))))"
    unfolding counts by simp
  with reset_after_reading
  have "stdout (aggregate_cle_metrics example_aggregate example_world) =
          stdout example_world @
            [\<lparr>field_names = [''metric'', ''log_replayed agents''],
              rows = example_aggregate (validation_results (cle_evaluator example_world))\<rparr>]"
    by blast
  hence "stdout (aggregate_cle_metrics example_aggregate example_world) =
           [\<lparr>field_names = [''metric'', ''log_replayed agents''],
             rows = [(''displacement_error_l2'', 2), (''yaw_error_ca'', 0)]\<rparr>]"
    unfolding counts by (simp add: example_world_def)
  moreover from reset_after_reading
  have "validation_results (cle_evaluator (aggregate_cle_metrics example_aggregate example_world))
          = Map.empty"
    by blast
  ultimately show ?thesis by blast
qed


end
